theory Spec2Isabelle
  imports
    Complex_Main
    "HOL-Library.Sublist"
    "HOL-Library.AList"
    "HOL-Library.Char_ord"
    "HOL-Library.List_Lexorder"
    "HOL-Library.Log_Nat"
begin

section \<open>Personal finance tracker: the record store of webtracker.py\<close>

text \<open>
  The development embeds the classes \<^verbatim>\<open>Expense\<close>, \<^verbatim>\<open>Income\<close>, \<^verbatim>\<open>DataManager\<close> and
  \<^verbatim>\<open>ExpenseTracker\<close> of \<^verbatim>\<open>src/webtracker.py\<close>. Conventions of the embedding:

  \<^item> Python's \<^verbatim>\<open>float\<close> is the type \<open>pyfloat\<close> of IEEE 754 doubles: a finite double is
    its exact rational value, and every addition and subtraction rounds the exact result to
    the nearest double, ties to the even mantissa, overflowing to an infinity. The two zeros
    are one value; they are equal in Python and differ only in the sign printed.
  \<^item> Python's \<^verbatim>\<open>str\<close> is \<open>string\<close>; case mapping and white space are the ASCII ones, and
    the one non-ASCII character of the source (the siren of the budget alert) is its UTF-8
    encoding.
  \<^item> \<^verbatim>\<open>datetime.date.today()\<close> is a parameter \<open>today\<close> of every function that reads the clock.
  \<^item> A Python \<^verbatim>\<open>dict\<close> is an association list in insertion order, with the operations of
    \<open>AList\<close>: \<open>update\<close> overwrites in place or appends, \<open>delete\<close> removes the key.
  \<^item> The file \<^verbatim>\<open>expenses.json\<close> is a value of type \<open>json_file\<close>: absent, present but not JSON, or
    a JSON document. The document is typed as the dataclass annotations type it (numbers for
    amounts, strings for the rest); any of its keys may be missing. Writing the file always
    succeeds in the model, so the \<^verbatim>\<open>except\<close> branch of \<^verbatim>\<open>save_data\<close> is not reached.
\<close>

subsection \<open>Floating point\<close>

datatype pyfloat = Finite rat | PosInf | NegInf | NaN

type_synonym money = pyfloat

definition round_half_even :: "rat \<Rightarrow> int" where
  "round_half_even q = (let f = \<lfloor>q\<rfloor>; r = q - of_int f in
     if r < 1 / 2 then f else if 1 / 2 < r then f + 1 else if even f then f else f + 1)"

definition pow2 :: "int \<Rightarrow> rat" where
  "pow2 e = (if 0 \<le> e then 2 ^ nat e else 1 / 2 ^ nat (- e))"

text \<open>The binary exponent of a positive rational: \<open>pow2 k \<le> q < pow2 (k + 1)\<close>.\<close>

definition floor_log2 :: "rat \<Rightarrow> int" where
  "floor_log2 q = (let k = bitlen (fst (quotient_of q)) - bitlen (snd (quotient_of q))
     in if pow2 k \<le> q then k else k - 1)"

text \<open>
  Rounding to a double: 53 bits of mantissa, the exponent of the last bit no smaller than
  \<open>-1074\<close> (the subnormal range), and an infinity when the rounded value reaches
  \<open>2 ^ 1024\<close>, that is, when its binary exponent is 1024 or more.
\<close>

definition round_double :: "rat \<Rightarrow> pyfloat" where
  "round_double q =
     (if q = 0 then Finite 0
      else (let e = max (floor_log2 \<bar>q\<bar> - 52) (- 1074);
                r = of_int (round_half_even (\<bar>q\<bar> / pow2 e)) * pow2 e
            in if 1024 \<le> floor_log2 r then (if 0 < q then PosInf else NegInf)
               else Finite (if 0 < q then r else - r)))"

fun fadd :: "pyfloat \<Rightarrow> pyfloat \<Rightarrow> pyfloat" where
  "fadd (Finite a) (Finite b) = round_double (a + b)"
| "fadd NaN _ = NaN"
| "fadd _ NaN = NaN"
| "fadd PosInf NegInf = NaN"
| "fadd NegInf PosInf = NaN"
| "fadd PosInf _ = PosInf"
| "fadd NegInf _ = NegInf"
| "fadd _ PosInf = PosInf"
| "fadd _ NegInf = NegInf"

fun fneg :: "pyfloat \<Rightarrow> pyfloat" where
  "fneg (Finite a) = Finite (- a)"
| "fneg PosInf = NegInf"
| "fneg NegInf = PosInf"
| "fneg NaN = NaN"

definition fsub :: "pyfloat \<Rightarrow> pyfloat \<Rightarrow> pyfloat" where
  "fsub a b = fadd a (fneg b)"

text \<open>The comparisons \<^verbatim>\<open>a > b\<close> and \<^verbatim>\<open>a == b\<close>; both are false when a side is not a number.\<close>

fun fgt :: "pyfloat \<Rightarrow> pyfloat \<Rightarrow> bool" where
  "fgt (Finite a) (Finite b) = (b < a)"
| "fgt NaN _ = False"
| "fgt _ NaN = False"
| "fgt PosInf PosInf = False"
| "fgt PosInf _ = True"
| "fgt _ PosInf = False"
| "fgt NegInf _ = False"
| "fgt _ NegInf = True"

definition feq :: "pyfloat \<Rightarrow> pyfloat \<Rightarrow> bool" where
  "feq a b = (a \<noteq> NaN \<and> a = b)"

text \<open>The finite doubles: a mantissa of at most 53 bits at an exponent of the format.\<close>

definition is_double :: "rat \<Rightarrow> bool" where
  "is_double q = (\<exists>m e. \<bar>m\<bar> < 2 ^ 53 \<and> - 1074 \<le> e \<and> e \<le> 971 \<and> q = of_int m * pow2 e)"

subsection \<open>Strings\<close>

definition isspace :: "char \<Rightarrow> bool" where
  "isspace c = (let n = (of_char c :: nat) in (9 \<le> n \<and> n \<le> 13) \<or> (28 \<le> n \<and> n \<le> 32))"

definition strip :: "string \<Rightarrow> string" where
  "strip s = rev (dropWhile isspace (rev (dropWhile isspace s)))"

definition upper_char :: "char \<Rightarrow> char" where
  "upper_char c = (let n = (of_char c :: nat) in if 97 \<le> n \<and> n \<le> 122 then char_of (n - 32) else c)"

definition lower_char :: "char \<Rightarrow> char" where
  "lower_char c = (let n = (of_char c :: nat) in if 65 \<le> n \<and> n \<le> 90 then char_of (n + 32) else c)"

definition capitalize :: "string \<Rightarrow> string" where
  "capitalize s = (case s of [] \<Rightarrow> [] | c # cs \<Rightarrow> upper_char c # map lower_char cs)"

text \<open>\<^verbatim>\<open>s.startswith(p)\<close> and the slice \<^verbatim>\<open>s[:n]\<close>.\<close>

definition startswith :: "string \<Rightarrow> string \<Rightarrow> bool" where
  "startswith s p = (take (length p) s = p)"

subsection \<open>Decimal output: \<^verbatim>\<open>strftime\<close> and the format \<^verbatim>\<open>,.2f\<close>\<close>

fun decimal :: "nat \<Rightarrow> string" where
  "decimal n = (if n < 10 then [char_of (48 + n)] else decimal (n div 10) @ [char_of (48 + n mod 10)])"

definition zero_pad :: "nat \<Rightarrow> nat \<Rightarrow> string" where
  "zero_pad w n = replicate (w - length (decimal n)) (CHR ''0'') @ decimal n"

record pydate =
  year :: nat
  month :: nat
  day :: nat

definition strftime_Y :: "pydate \<Rightarrow> string" where
  "strftime_Y d = zero_pad 4 (year d)"

definition strftime_Ym :: "pydate \<Rightarrow> string" where
  "strftime_Ym d = zero_pad 4 (year d) @ ''-'' @ zero_pad 2 (month d)"

fun group3 :: "string \<Rightarrow> string" where
  "group3 ds = (if length ds \<le> 3 then ds
     else group3 (take (length ds - 3) ds) @ '','' @ drop (length ds - 3) ds)"

text \<open>
  The format \<^verbatim>\<open>,.2f\<close> prints the exact value of the double rounded to two decimals, ties to
  even, with the integer part in groups of three.
\<close>

definition fmt_finite :: "rat \<Rightarrow> string" where
  "fmt_finite x = (let c = nat (round_half_even (\<bar>x\<bar> * 100)) in
     (if x < 0 then ''-'' else []) @ group3 (decimal (c div 100)) @ ''.'' @ zero_pad 2 (c mod 100))"

fun fmt_money :: "money \<Rightarrow> string" where
  "fmt_money (Finite x) = fmt_finite x"
| "fmt_money PosInf = ''inf''"
| "fmt_money NegInf = ''-inf''"
| "fmt_money NaN = ''nan''"

subsection \<open>Data structures\<close>

text \<open>
  Both dataclasses have the fields \<^verbatim>\<open>amount\<close> and \<^verbatim>\<open>date\<close>, which the duck-typed helpers
  read from either; they are the common part of the two records.
\<close>

record transaction =
  amount :: money
  date :: string

record expense = transaction +
  category :: string
  tag :: string

record income = transaction +
  source :: string

record transaction_obj =
  amount_key :: "money option"
  date_key :: "string option"

record expense_obj = transaction_obj +
  category_key :: "string option"
  tag_key :: "string option"

record income_obj = transaction_obj +
  source_key :: "string option"

datatype error = FileNotFoundError | JSONDecodeError | KeyError string

definition Expense_to_dict :: "expense \<Rightarrow> expense_obj" where
  "Expense_to_dict e = \<lparr>amount_key = Some (amount e), date_key = Some (date e),
     category_key = Some (category e), tag_key = Some (tag e)\<rparr>"

definition Expense_from_dict :: "expense_obj \<Rightarrow> error + expense" where
  "Expense_from_dict d =
     (case amount_key d of None \<Rightarrow> Inl (KeyError ''amount'') | Some a \<Rightarrow>
       (case category_key d of None \<Rightarrow> Inl (KeyError ''category'') | Some c \<Rightarrow>
         (case date_key d of None \<Rightarrow> Inl (KeyError ''date'') | Some dt \<Rightarrow>
            Inr \<lparr>amount = a, date = dt, category = c,
                 tag = (case tag_key d of None \<Rightarrow> [] | Some t \<Rightarrow> t)\<rparr>)))"

definition Income_to_dict :: "income \<Rightarrow> income_obj" where
  "Income_to_dict i = \<lparr>amount_key = Some (amount i), date_key = Some (date i),
     source_key = Some (source i)\<rparr>"

definition Income_from_dict :: "income_obj \<Rightarrow> error + income" where
  "Income_from_dict d =
     (case amount_key d of None \<Rightarrow> Inl (KeyError ''amount'') | Some a \<Rightarrow>
       (case source_key d of None \<Rightarrow> Inl (KeyError ''source'') | Some s \<Rightarrow>
         (case date_key d of None \<Rightarrow> Inl (KeyError ''date'') | Some dt \<Rightarrow>
            Inr \<lparr>amount = a, date = dt, source = s\<rparr>)))"

subsection \<open>Dictionaries\<close>

type_synonym 'v dict = "(string \<times> 'v) list"

definition dict_get :: "'v dict \<Rightarrow> string \<Rightarrow> 'v \<Rightarrow> 'v" where
  "dict_get d k dflt = (case map_of d k of None \<Rightarrow> dflt | Some v \<Rightarrow> v)"

definition dict_in :: "string \<Rightarrow> 'v dict \<Rightarrow> bool" where
  "dict_in k d = (map_of d k \<noteq> None)"

definition dict_keys :: "'v dict \<Rightarrow> string list" where
  "dict_keys d = map fst d"

subsection \<open>Data persistence (DataManager)\<close>

record document =
  expenses_key :: "expense_obj list option"
  budgets_key :: "money dict option"
  incomes_key :: "income_obj list option"

datatype json_file = Absent | Invalid_JSON | JSON document

record tracker =
  expenses :: "expense list"
  budgets :: "money dict"
  incomes :: "income list"

text \<open>\<^verbatim>\<open>json.load(open(FILEPATH))\<close>: the two exceptions \<^verbatim>\<open>load_data\<close> names, or the document.\<close>

definition json_load :: "json_file \<Rightarrow> error + document" where
  "json_load f = (case f of Absent \<Rightarrow> Inl FileNotFoundError
     | Invalid_JSON \<Rightarrow> Inl JSONDecodeError | JSON doc \<Rightarrow> Inr doc)"

text \<open>A list comprehension whose element expression may raise: the first error ends it.\<close>

fun comprehension :: "('a \<Rightarrow> error + 'b) \<Rightarrow> 'a list \<Rightarrow> error + 'b list" where
  "comprehension g [] = Inr []"
| "comprehension g (x # xs) =
     (case g x of Inl e \<Rightarrow> Inl e
      | Inr y \<Rightarrow> (case comprehension g xs of Inl e \<Rightarrow> Inl e | Inr ys \<Rightarrow> Inr (y # ys)))"

definition load_data :: "json_file \<Rightarrow> tracker" where
  "load_data f =
     (let data = \<lparr>expenses = [], budgets = [], incomes = []\<rparr> in
      case json_load f of Inl _ \<Rightarrow> data
      | Inr loaded_data \<Rightarrow>
          (let expense_dicts = (case expenses_key loaded_data of None \<Rightarrow> [] | Some ds \<Rightarrow> ds) in
           case comprehension Expense_from_dict expense_dicts of Inl _ \<Rightarrow> data
           | Inr es \<Rightarrow>
               (let data = data\<lparr>expenses := es\<rparr>;
                    income_dicts = (case incomes_key loaded_data of None \<Rightarrow> [] | Some ds \<Rightarrow> ds) in
                case comprehension Income_from_dict income_dicts of Inl _ \<Rightarrow> data
                | Inr ins \<Rightarrow>
                    (let data = data\<lparr>incomes := ins\<rparr> in
                     data\<lparr>budgets := (case budgets_key loaded_data of None \<Rightarrow> [] | Some b \<Rightarrow> b)\<rparr>))))"

definition save_data :: "expense list \<Rightarrow> money dict \<Rightarrow> income list \<Rightarrow> json_file" where
  "save_data es bs ins = JSON \<lparr>expenses_key = Some (map Expense_to_dict es),
     budgets_key = Some bs, incomes_key = Some (map Income_to_dict ins)\<rparr>"

subsection \<open>Core logic (ExpenseTracker)\<close>

text \<open>The tracker object together with the file its data manager writes.\<close>

type_synonym world = "tracker \<times> json_file"

definition ExpenseTracker_init :: "json_file \<Rightarrow> world" where
  "ExpenseTracker_init f = (load_data f, f)"

definition save :: "tracker \<Rightarrow> world" where
  "save t = (t, save_data (expenses t) (budgets t) (incomes t))"

text \<open>
  Python's \<^verbatim>\<open>sum\<close> of a generator of floats: the items are added from left to right,
  starting from 0, each addition rounded. This is the sum of the language reference, and what
  CPython computes up to version 3.11; later versions carry a correction term along, which
  can change the last bit of a total of three or more floats.
\<close>

definition py_sum :: "money list \<Rightarrow> money" where
  "py_sum xs = foldl fadd (Finite 0) xs"

text \<open>
  \<^verbatim>\<open>monthly_spending\<close> is a \<^verbatim>\<open>defaultdict(float)\<close>: a missing category reads as 0.0 before
  the amount is added to it.
\<close>

fun spending_loop :: "string \<Rightarrow> expense list \<Rightarrow> money dict \<Rightarrow> money dict" where
  "spending_loop current_month [] monthly_spending = monthly_spending"
| "spending_loop current_month (ex # rest) monthly_spending =
     spending_loop current_month rest
       (if take 7 (date ex) = current_month
        then AList.update (category ex)
               (fadd (dict_get monthly_spending (category ex) (Finite 0)) (amount ex))
               monthly_spending
        else monthly_spending)"

definition get_category_spending :: "pydate \<Rightarrow> tracker \<Rightarrow> money dict" where
  "get_category_spending today t = spending_loop (strftime_Ym today) (expenses t) []"

text \<open>
  The bodies of \<^verbatim>\<open>add_expense\<close>, \<^verbatim>\<open>add_income\<close>, \<^verbatim>\<open>remove_expense\<close> and
  \<^verbatim>\<open>remove_income\<close> stand in \<^verbatim>\<open>try\<close> blocks. On arguments of the annotated types
  (a number, strings, an integer index) nothing in them raises, so the \<^verbatim>\<open>except\<close> branches
  have no counterpart below. The subscript \<^verbatim>\<open>self.budgets[category_cleaned]\<close> is read under
  the test \<^verbatim>\<open>category_cleaned in self.budgets\<close>.
\<close>

definition siren :: string where
  "siren = [CHR 0xF0, CHR 0x9F, CHR 0x9A, CHR 0xA8]"

definition add_expense ::
  "pydate \<Rightarrow> money \<Rightarrow> string \<Rightarrow> string \<Rightarrow> string \<Rightarrow> world \<Rightarrow> (bool \<times> string) \<times> world" where
  "add_expense today amt cat date_str tg w =
     (let category_cleaned = capitalize (strip cat);
          tag_cleaned = strip tg;
          ex = \<lparr>amount = amt, date = date_str, category = category_cleaned, tag = tag_cleaned\<rparr>;
          t = (fst w)\<lparr>expenses := expenses (fst w) @ [ex]\<rparr>;
          alert_message =
            (if dict_in category_cleaned (budgets t) then
               (let budget_limit = dict_get (budgets t) category_cleaned (Finite 0);
                    monthly_spending = get_category_spending today t;
                    current_spent = dict_get monthly_spending category_cleaned (Finite 0) in
                if fgt current_spent budget_limit then
                  (let over_amount = fsub current_spent budget_limit in
                   siren @ '' BUDGET ALERT: Spending in '' @ category_cleaned
                     @ '' exceeds budget of $'' @ fmt_money budget_limit
                     @ '' by $'' @ fmt_money over_amount @ ''!'')
                else [])
             else [])
      in ((True, ''Expense added successfully.''
            @ (if alert_message \<noteq> [] then '' '' @ alert_message else [])), save t))"

definition add_income ::
  "money \<Rightarrow> string \<Rightarrow> string \<Rightarrow> world \<Rightarrow> (bool \<times> string) \<times> world" where
  "add_income amt src date_str w =
     (let source_cleaned = capitalize (strip src);
          inc = \<lparr>amount = amt, date = date_str, source = source_cleaned\<rparr>;
          t = (fst w)\<lparr>incomes := incomes (fst w) @ [inc]\<rparr>
      in ((True, ''Income added successfully from '' @ source_cleaned @ ''.''), save t))"

definition set_budget :: "string \<Rightarrow> money \<Rightarrow> world \<Rightarrow> (bool \<times> string) \<times> world" where
  "set_budget cat amt w =
     (let category_cleaned = capitalize (strip cat);
          t = (fst w)\<lparr>budgets := AList.update category_cleaned amt (budgets (fst w))\<rparr>
      in ((True, ''Budget set: Monthly limit for '' @ category_cleaned @ '' is now $''
            @ fmt_money amt), save t))"

text \<open>\<^verbatim>\<open>xs.pop(i)\<close> for \<open>i\<close> in range: the element and the list without it.\<close>

definition pop :: "'a list \<Rightarrow> nat \<Rightarrow> 'a \<times> 'a list" where
  "pop xs i = (xs ! i, take i xs @ drop (Suc i) xs)"

definition remove_expense :: "int \<Rightarrow> world \<Rightarrow> (bool \<times> string) \<times> world" where
  "remove_expense index w =
     (if 0 \<le> index \<and> index < int (length (expenses (fst w))) then
        (let (removed_expense, rest) = pop (expenses (fst w)) (nat index);
             t = (fst w)\<lparr>expenses := rest\<rparr>
         in ((True, ''Expense on '' @ date removed_expense @ '' for $''
               @ fmt_money (amount removed_expense) @ '' ('' @ category removed_expense
               @ '') removed successfully.''), save t))
      else ((False, ''Invalid expense index.''), w))"

definition remove_income :: "int \<Rightarrow> world \<Rightarrow> (bool \<times> string) \<times> world" where
  "remove_income index w =
     (if 0 \<le> index \<and> index < int (length (incomes (fst w))) then
        (let (removed_income, rest) = pop (incomes (fst w)) (nat index);
             t = (fst w)\<lparr>incomes := rest\<rparr>
         in ((True, ''Income on '' @ date removed_income @ '' from '' @ source removed_income
               @ '' ($'' @ fmt_money (amount removed_income) @ '') removed successfully.''),
             save t))
      else ((False, ''Invalid income index.''), w))"

definition quote :: string where
  "quote = [CHR 0x27]"

definition delete_budget :: "string \<Rightarrow> world \<Rightarrow> (bool \<times> string) \<times> world" where
  "delete_budget category_name w =
     (let category_cleaned = capitalize (strip category_name) in
      if dict_in category_cleaned (budgets (fst w)) then
        (let t = (fst w)\<lparr>budgets := AList.delete category_cleaned (budgets (fst w))\<rparr>
         in ((True, ''Budget limit for '' @ quote @ category_cleaned @ quote
               @ '' removed successfully.''), save t))
      else ((False, ''No budget found for category '' @ quote @ category_cleaned @ quote
              @ ''.''), w))"

definition delete_category :: "string \<Rightarrow> world \<Rightarrow> (bool \<times> string) \<times> world" where
  "delete_category category_name w =
     (let category_cleaned = capitalize (strip category_name);
          original_count = length (expenses (fst w));
          kept = filter (\<lambda>ex. category ex \<noteq> category_cleaned) (expenses (fst w));
          deleted_count = original_count - length kept;
          budget_deleted = dict_in category_cleaned (budgets (fst w));
          t = (fst w)\<lparr>expenses := kept,
                budgets := (if budget_deleted then AList.delete category_cleaned (budgets (fst w))
                            else budgets (fst w))\<rparr>;
          message = ''Category '' @ quote @ category_cleaned @ quote @ '' deleted. Removed ''
            @ decimal deleted_count @ '' expense(s).''
            @ (if budget_deleted then '' Budget limit also removed.'' else [])
      in if deleted_count = 0 \<and> \<not> budget_deleted
         then ((False, ''Category '' @ quote @ category_cleaned @ quote
                 @ '' not found in expenses or budgets.''), save t)
         else ((True, message), save t))"

subsection \<open>Reporting\<close>

definition filter_transactions ::
  "pydate \<Rightarrow> ('a transaction_scheme) list \<Rightarrow> string \<Rightarrow> ('a transaction_scheme) list" where
  "filter_transactions today records filter_type =
     (if filter_type = ''all'' then records
      else if filter_type = ''month'' then
        (let filter_str = strftime_Ym today in filter (\<lambda>r. startswith (date r) filter_str) records)
      else if filter_type = ''year'' then
        (let filter_str = strftime_Y today in filter (\<lambda>r. startswith (date r) filter_str) records)
      else records)"

text \<open>
  \<^verbatim>\<open>sorted(xs, key=k, reverse=True)\<close> is stable: records with equal keys keep their
  original order. \<open>sort_key\<close> is a stable ascending sort.
\<close>

definition sorted_reverse :: "('a \<Rightarrow> string) \<Rightarrow> 'a list \<Rightarrow> 'a list" where
  "sorted_reverse k xs = rev (sort_key k (rev xs))"

definition enumerate_int :: "'a list \<Rightarrow> (int \<times> 'a) list" where
  "enumerate_int xs = zip (map int [0..<length xs]) xs"

definition get_expenses_summary :: "tracker \<Rightarrow> (int \<times> expense) list \<times> money" where
  "get_expenses_summary t =
     (let indexed = enumerate_int (expenses t);
          sorted_expenses = sorted_reverse (\<lambda>item. date (snd item)) indexed;
          indexed_for_table = map (\<lambda>(original_index, e). (original_index, e)) sorted_expenses;
          total_spent = py_sum (map amount (expenses t))
      in (indexed_for_table, total_spent))"

definition get_income_summary :: "tracker \<Rightarrow> (int \<times> income) list \<times> money" where
  "get_income_summary t =
     (let indexed = enumerate_int (incomes t);
          sorted_incomes = sorted_reverse (\<lambda>item. date (snd item)) indexed;
          indexed_for_table = map (\<lambda>(original_index, i). (original_index, i)) sorted_incomes;
          total_income = py_sum (map amount (incomes t))
      in (indexed_for_table, total_income))"

definition calculate_net_savings :: "pydate \<Rightarrow> tracker \<Rightarrow> money \<times> money \<times> money" where
  "calculate_net_savings today t =
     (let current_month = strftime_Ym today;
          total_income = py_sum (map amount (filter (\<lambda>inc. take 7 (date inc) = current_month) (incomes t)));
          total_expense = py_sum (map amount (filter (\<lambda>ex. take 7 (date ex) = current_month) (expenses t)));
          net_savings = fsub total_income total_expense
      in (total_income, total_expense, net_savings))"

record report_row =
  row_category :: string
  row_budget :: money
  row_spent :: money
  row_remaining :: money
  row_status :: string
  row_status_class :: string

definition report_entry :: "money dict \<Rightarrow> money dict \<Rightarrow> string \<Rightarrow> report_row" where
  "report_entry bs spending cat =
     (let budget = dict_get bs cat (Finite 0);
          spent = dict_get spending cat (Finite 0);
          remaining = fsub budget spent;
          (status, status_class) =
            (if fgt spent budget \<and> fgt budget (Finite 0) then (''OVER BUDGET'', ''negative'')
             else if feq budget (Finite 0) then (''NO BUDGET SET'', [])
             else (''On Track'', ''positive''))
      in \<lparr>row_category = cat, row_budget = budget, row_spent = spent,
           row_remaining = remaining, row_status = status, row_status_class = status_class\<rparr>)"

definition get_budget_report :: "pydate \<Rightarrow> tracker \<Rightarrow> report_row list" where
  "get_budget_report today t =
     (let spending = get_category_spending today t;
          categories = sort (remdups (dict_keys (budgets t) @ dict_keys spending))
      in map (report_entry (budgets t) spending) categories)"

section \<open>Properties\<close>

subsection \<open>Helper lemmas\<close>

lemma startswith_prefix: "startswith s p = prefix p s"
  unfolding startswith_def prefix_def
  by (metis append_eq_conv_conj append_take_drop_id)

lemma comprehension_Expense_roundtrip:
  "comprehension Expense_from_dict (map Expense_to_dict es) = Inr es"
  by (induction es) (simp_all add: Expense_from_dict_def Expense_to_dict_def)

lemma comprehension_Income_roundtrip:
  "comprehension Income_from_dict (map Income_to_dict ins) = Inr ins"
  by (induction ins) (simp_all add: Income_from_dict_def Income_to_dict_def)

lemma round_half_even_of_int: "round_half_even (of_int n) = n"
  by (simp add: round_half_even_def)

subsection \<open>Floating point\<close>

text \<open>
  The binary exponent is the right one, a double is rounded to itself, the rounded value is a
  double, and it lies within half a unit of the last place of the exact value. Hence the first
  addition of a sum, \<open>0 + x\<close>, is exact, and so is the sum or difference of two whole numbers
  when it is below \<open>2 ^ 53\<close> in size.
\<close>

lemma pow2_int: "pow2 (int k) = 2 ^ k"
  by (simp add: pow2_def)

lemma pow2_neg_int: "pow2 (- int k) = 1 / 2 ^ k"
  by (cases "k = 0") (simp_all add: pow2_def)

lemma pow2_diff: "pow2 (int m - int n) = 2 ^ m / 2 ^ n"
proof (cases "n \<le> m")
  case True
  then have e: "int m - int n = int (m - n)" by simp
  have "pow2 (int m - int n) = 2 ^ (m - n)" by (simp only: e pow2_int)
  also have "(2::rat) ^ (m - n) = 2 ^ m / 2 ^ n"
    using True by (simp add: power_diff)
  finally show ?thesis .
next
  case False
  then have nm: "m \<le> n" by simp
  then have e: "int m - int n = - int (n - m)" by simp
  have "pow2 (int m - int n) = 1 / 2 ^ (n - m)" by (simp only: e pow2_neg_int)
  also have "(2::rat) ^ (n - m) = 2 ^ n / 2 ^ m"
    using nm by (simp add: power_diff)
  also have "1 / ((2::rat) ^ n / 2 ^ m) = 2 ^ m / 2 ^ n" by simp
  finally show ?thesis .
qed

lemma floor_log2_bounds:
  assumes "0 < q"
  shows "pow2 (floor_log2 q) \<le> q \<and> q < pow2 (floor_log2 q + 1)"
proof -
  define a where "a = fst (quotient_of q)"
  define b where "b = snd (quotient_of q)"
  have b: "0 < b" by (simp add: b_def quotient_of_denom_pos')
  have q: "q = of_int a / of_int b"
    by (simp add: a_def b_def quotient_of_div)
  with assms b have a: "0 < a" by (simp add: zero_less_divide_iff)
  define la where "la = nat (bitlen a)"
  define lb where "lb = nat (bitlen b)"
  have bla: "bitlen a = int la" and blb: "bitlen b = int lb"
    by (simp_all add: la_def lb_def bitlen_nonneg)
  have la: "0 < la" using a by (simp add: la_def bitlen_alt_def)
  have lb: "0 < lb" using b by (simp add: lb_def bitlen_alt_def)
  have na: "nat (bitlen a - 1) = la - 1" and nb: "nat (bitlen b - 1) = lb - 1"
    by (simp_all add: la_def lb_def nat_diff_distrib')
  from bitlen_bounds [OF a] have a1: "2 ^ (la - 1) \<le> a" and a2: "a < 2 ^ la"
    by (simp_all add: na la_def)
  from bitlen_bounds [OF b] have b1: "2 ^ (lb - 1) \<le> b" and b2: "b < 2 ^ lb"
    by (simp_all add: nb lb_def)
  have ra1: "(2::rat) ^ (la - 1) \<le> of_int a"
  proof -
    from a1 have "(of_int (2 ^ (la - 1)) :: rat) \<le> of_int a" by (simp only: of_int_le_iff)
    then show ?thesis by simp
  qed
  have ra2: "of_int a < (2::rat) ^ la"
  proof -
    from a2 have "(of_int a :: rat) < of_int (2 ^ la)" by (simp only: of_int_less_iff)
    then show ?thesis by simp
  qed
  have rb1: "(2::rat) ^ (lb - 1) \<le> of_int b"
  proof -
    from b1 have "(of_int (2 ^ (lb - 1)) :: rat) \<le> of_int b" by (simp only: of_int_le_iff)
    then show ?thesis by simp
  qed
  have rb2: "of_int b < (2::rat) ^ lb"
  proof -
    from b2 have "(of_int b :: rat) < of_int (2 ^ lb)" by (simp only: of_int_less_iff)
    then show ?thesis by simp
  qed
  have rb: "(0::rat) < of_int b" using b by simp
  have ra: "(0::rat) < of_int a" using a by simp
  have upper: "q < pow2 (int la - int lb + 1)"
  proof -
    have "of_int a / of_int b < (2::rat) ^ la / of_int b"
      using ra2 rb by (rule divide_strict_right_mono)
    also have "\<dots> \<le> 2 ^ la / 2 ^ (lb - 1)"
      by (rule divide_left_mono) (use rb1 rb in simp_all)
    also have "\<dots> = pow2 (int la - int (lb - 1))" by (simp only: pow2_diff)
    finally have "q < pow2 (int la - int (lb - 1))" by (simp only: q)
    moreover have "int la - int (lb - 1) = int la - int lb + 1" using lb by simp
    ultimately show ?thesis by (simp only:)
  qed
  have lower: "pow2 (int la - int lb - 1) \<le> q"
  proof -
    have "pow2 (int (la - 1) - int lb) = 2 ^ (la - 1) / 2 ^ lb" by (simp only: pow2_diff)
    also have "\<dots> \<le> of_int a / 2 ^ lb"
      by (rule divide_right_mono) (use ra1 in simp_all)
    also have "\<dots> \<le> of_int a / of_int b"
      by (rule divide_left_mono) (use rb2 rb ra in simp_all)
    finally have "pow2 (int (la - 1) - int lb) \<le> q" by (simp only: q)
    moreover have "int (la - 1) - int lb = int la - int lb - 1" using la by simp
    ultimately show ?thesis by (simp only:)
  qed
  have fl: "floor_log2 q =
      (if pow2 (int la - int lb) \<le> q then int la - int lb else int la - int lb - 1)"
    by (simp add: floor_log2_def Let_def a_def [symmetric] b_def [symmetric] bla blb)
  show ?thesis
  proof (cases "pow2 (int la - int lb) \<le> q")
    case True
    with upper fl show ?thesis by simp
  next
    case False
    with lower fl show ?thesis by simp
  qed
qed


lemma pow2_powi: "pow2 e = 2 powi e"
  by (simp add: pow2_def power_int_def inverse_eq_divide power_one_over)

lemma pow2_pos: "0 < pow2 e"
  by (simp add: pow2_powi)

lemma pow2_add: "pow2 (a + b) = pow2 a * pow2 b"
  by (simp add: pow2_powi power_int_add)

lemma pow2_less_imp_less: "pow2 a < pow2 b \<Longrightarrow> a < b"
proof (rule ccontr)
  assume l: "pow2 a < pow2 b" and "\<not> a < b"
  then have "b \<le> a" by simp
  then have "(2::rat) powi b \<le> 2 powi a" by (intro power_int_increasing) simp_all
  with l show False by (simp add: pow2_powi)
qed

lemma round_double_exact_pos:
  assumes m: "0 < m" "m < 2 ^ 53" and e: "- 1074 \<le> e" "e \<le> 971"
  shows "round_double (of_int m * pow2 e) = Finite (of_int m * pow2 e)"
proof -
  define q where "q = of_int m * pow2 e"
  have qpos: "0 < q" using m pow2_pos [of e] by (simp add: q_def)
  have "of_int m < (2::rat) ^ 53"
  proof -
    from m have "(of_int m :: rat) < of_int (2 ^ 53)" by (simp only: of_int_less_iff)
    then show ?thesis by simp
  qed
  then have "of_int m < pow2 53" by (simp add: pow2_def)
  then have "q < pow2 53 * pow2 e"
    unfolding q_def using pow2_pos [of e] by (simp add: mult_strict_right_mono)
  then have qlt: "q < pow2 (53 + e)" by (simp only: pow2_add)
  from floor_log2_bounds [OF qpos] have "pow2 (floor_log2 q) \<le> q" by simp
  with qlt have "pow2 (floor_log2 q) < pow2 (53 + e)" by simp
  then have fl: "floor_log2 q < 53 + e" by (rule pow2_less_imp_less)
  define u where "u = max (floor_log2 q - 52) (- 1074)"
  have ule: "u \<le> e" using fl e by (simp add: u_def)
  define k where "k = nat (e - u)"
  have ek: "e = int k + u" using ule by (simp add: k_def)
  have "pow2 e = 2 ^ k * pow2 u"
    by (simp only: ek pow2_add pow2_int)
  then have "q / pow2 u = of_int (m * 2 ^ k)"
    using pow2_pos [of u] by (simp add: q_def)
  then have rh: "round_half_even (q / pow2 u) = m * 2 ^ k"
    by (simp only: round_half_even_of_int)
  have r: "of_int (round_half_even (q / pow2 u)) * pow2 u = q"
    using \<open>pow2 e = 2 ^ k * pow2 u\<close> by (simp only: rh) (simp add: q_def)
  have no: "\<not> 1024 \<le> floor_log2 q" using fl e by simp
  have "round_double q = Finite q"
    unfolding round_double_def Let_def
    using qpos no r by (simp add: u_def [symmetric])
  then show ?thesis by (simp only: q_def)
qed

lemma round_double_minus: "round_double (- q) = fneg (round_double q)"
  by (simp add: round_double_def Let_def)

lemma round_double_exact:
  assumes "is_double q"
  shows "round_double q = Finite q"
proof -
  from assms obtain m e where m: "\<bar>m\<bar> < 2 ^ 53" and e: "- 1074 \<le> e" "e \<le> 971"
    and q: "q = of_int m * pow2 e" by (auto simp add: is_double_def)
  show ?thesis
  proof (cases "0 < m")
    case True
    with m e show ?thesis unfolding q by (intro round_double_exact_pos) simp_all
  next
    case False
    show ?thesis
    proof (cases "m = 0")
      case True
      then show ?thesis by (simp add: q round_double_def)
    next
      case False
      with \<open>\<not> 0 < m\<close> m have "0 < - m" "- m < 2 ^ 53" by simp_all
      then have "round_double (of_int (- m) * pow2 e) = Finite (of_int (- m) * pow2 e)"
        using e by (intro round_double_exact_pos)
      then have "round_double (- q) = Finite (- q)" by (simp add: q)
      then have "fneg (round_double q) = Finite (- q)" by (simp only: round_double_minus)
      then show ?thesis by (cases "round_double q") simp_all
    qed
  qed
qed

lemma round_half_even_error: "\<bar>of_int (round_half_even x) - x\<bar> \<le> 1 / 2"
proof -
  have "of_int \<lfloor>x\<rfloor> \<le> x" "x < of_int \<lfloor>x\<rfloor> + 1" by linarith+
  then show ?thesis
    by (auto simp add: round_half_even_def Let_def abs_le_iff)
qed

lemma round_half_even_nonneg: "0 \<le> x \<Longrightarrow> 0 \<le> round_half_even x"
  by (auto simp add: round_half_even_def Let_def)

lemma round_half_even_le_int: "x \<le> of_int n \<Longrightarrow> round_half_even x \<le> n"
proof -
  assume a: "x \<le> of_int n"
  have e: "\<bar>of_int (round_half_even x) - x\<bar> \<le> 1 / 2" by (rule round_half_even_error)
  then have "(of_int (round_half_even x) :: rat) \<le> of_int n + 1 / 2" using a by linarith
  then have "(of_int (round_half_even x) :: rat) < of_int (n + 1)" by simp
  then have "round_half_even x < n + 1" by (simp only: of_int_less_iff)
  then show ?thesis by simp
qed

lemma round_half_even_ge_int: "of_int n \<le> x \<Longrightarrow> n \<le> round_half_even x"
proof -
  assume a: "of_int n \<le> x"
  have e: "\<bar>of_int (round_half_even x) - x\<bar> \<le> 1 / 2" by (rule round_half_even_error)
  then have "(of_int n :: rat) - 1 / 2 \<le> of_int (round_half_even x)" using a by linarith
  then have "(of_int (n - 1) :: rat) < of_int (round_half_even x)" by simp
  then have "n - 1 < round_half_even x" by (simp only: of_int_less_iff)
  then show ?thesis by simp
qed

lemma pow2_mono: "a \<le> b \<Longrightarrow> pow2 a \<le> pow2 b"
  unfolding pow2_powi by (intro power_int_increasing) simp_all

lemma floor_log2_ge: "0 < q \<Longrightarrow> pow2 k \<le> q \<Longrightarrow> k \<le> floor_log2 q"
proof -
  assume q: "0 < q" and k: "pow2 k \<le> q"
  from floor_log2_bounds [OF q] have "q < pow2 (floor_log2 q + 1)" by simp
  with k have "pow2 k < pow2 (floor_log2 q + 1)" by simp
  then have "k < floor_log2 q + 1" by (rule pow2_less_imp_less)
  then show ?thesis by simp
qed

lemma round_double_error:
  assumes "round_double q = Finite r"
  shows "\<bar>r - q\<bar> \<le> pow2 (max (floor_log2 \<bar>q\<bar> - 52) (- 1074)) / 2"
proof (cases "q = 0")
  case True
  with assms have "r = 0" by (simp add: round_double_def)
  with True show ?thesis using pow2_pos [of "max (floor_log2 \<bar>q\<bar> - 52) (- 1074)"] by simp
next
  case False
  define u where "u = max (floor_log2 \<bar>q\<bar> - 52) (- 1074)"
  define m where "m = round_half_even (\<bar>q\<bar> / pow2 u)"
  have up: "0 < pow2 u" by (rule pow2_pos)
  have rd: "round_double q =
      (if 1024 \<le> floor_log2 (of_int m * pow2 u) then (if 0 < q then PosInf else NegInf)
       else Finite (if 0 < q then of_int m * pow2 u else - (of_int m * pow2 u)))"
    unfolding m_def u_def round_double_def Let_def using False by (simp only: if_False)
  from assms rd have r: "r = (if 0 < q then of_int m * pow2 u else - (of_int m * pow2 u))"
    by (simp split: if_splits)
  have "\<bar>of_int m - \<bar>q\<bar> / pow2 u\<bar> \<le> 1 / 2"
    unfolding m_def by (rule round_half_even_error)
  then have "\<bar>of_int m - \<bar>q\<bar> / pow2 u\<bar> * pow2 u \<le> 1 / 2 * pow2 u"
    using up by (intro mult_right_mono) simp_all
  moreover have "\<bar>of_int m - \<bar>q\<bar> / pow2 u\<bar> * pow2 u = \<bar>of_int m * pow2 u - \<bar>q\<bar>\<bar>"
  proof -
    have "\<bar>of_int m - \<bar>q\<bar> / pow2 u\<bar> * pow2 u = \<bar>(of_int m - \<bar>q\<bar> / pow2 u) * pow2 u\<bar>"
      using up by (simp add: abs_mult)
    also have "(of_int m - \<bar>q\<bar> / pow2 u) * pow2 u = of_int m * pow2 u - \<bar>q\<bar>"
      using up by (simp add: left_diff_distrib)
    finally show ?thesis .
  qed
  ultimately have e: "\<bar>of_int m * pow2 u - \<bar>q\<bar>\<bar> \<le> pow2 u / 2" by simp
  have "\<bar>r - q\<bar> = \<bar>of_int m * pow2 u - \<bar>q\<bar>\<bar>"
  proof (cases "0 < q")
    case True
    then show ?thesis by (simp add: r)
  next
    case False
    then have "r - q = - (of_int m * pow2 u - \<bar>q\<bar>)" by (simp add: r)
    then show ?thesis by (simp only: abs_minus_cancel)
  qed
  with e show ?thesis by (simp only: u_def)
qed

lemma round_double_is_double:
  assumes "round_double q = Finite r"
  shows "is_double r"
proof (cases "q = 0")
  case True
  with assms have "r = of_int 0 * pow2 0" by (simp add: round_double_def)
  then show ?thesis unfolding is_double_def by (intro exI [of _ 0] conjI) simp_all
next
  case False
  then have aq: "0 < \<bar>q\<bar>" by simp
  define fl where "fl = floor_log2 \<bar>q\<bar>"
  define u where "u = max (fl - 52) (- 1074)"
  define m where "m = round_half_even (\<bar>q\<bar> / pow2 u)"
  define v where "v = of_int m * pow2 u"
  have up: "0 < pow2 u" by (rule pow2_pos)
  have rd: "round_double q =
      (if 1024 \<le> floor_log2 v then (if 0 < q then PosInf else NegInf)
       else Finite (if 0 < q then v else - v))"
    unfolding v_def m_def u_def fl_def round_double_def Let_def using False
    by (simp only: if_False)
  from assms rd have r: "r = (if 0 < q then v else - v)"
    and no: "\<not> 1024 \<le> floor_log2 v"
    by (simp_all split: if_splits)
  from floor_log2_bounds [OF aq] have lo: "pow2 fl \<le> \<bar>q\<bar>" and hi: "\<bar>q\<bar> < pow2 (fl + 1)"
    by (simp_all add: fl_def)
  have m0: "0 \<le> m" unfolding m_def using aq up by (intro round_half_even_nonneg) simp
  have "pow2 (fl + 1) \<le> pow2 (53 + u)" by (rule pow2_mono) (simp add: u_def)
  with hi have "\<bar>q\<bar> < pow2 53 * pow2 u" by (simp add: pow2_add)
  then have "\<bar>q\<bar> / pow2 u < pow2 53" using up by (simp add: pos_divide_less_eq)
  then have "\<bar>q\<bar> / pow2 u \<le> of_int (2 ^ 53)" by (simp add: pow2_def)
  then have m53: "m \<le> 2 ^ 53" unfolding m_def by (rule round_half_even_le_int)
  have ulo: "- 1074 \<le> u" by (simp add: u_def)
  have big: "k \<le> m \<Longrightarrow> 0 < k \<Longrightarrow> k = 2 ^ n \<Longrightarrow> int n + u \<le> 1023" for k n
  proof -
    assume k: "k \<le> m" "0 < k" "k = 2 ^ n"
    then have "(of_int k :: rat) \<le> of_int m" by (simp only: of_int_le_iff)
    then have "of_int k * pow2 u \<le> v" unfolding v_def using up by (intro mult_right_mono) simp_all
    moreover have "(of_int k :: rat) = pow2 (int n)" by (simp add: k pow2_int)
    ultimately have le: "pow2 (int n + u) \<le> v" by (simp add: pow2_add)
    have "0 < v" using le pow2_pos [of "int n + u"] by linarith
    from floor_log2_ge [OF this le] no show ?thesis by simp
  qed
  have dv: "is_double v"
  proof (cases "m = 2 ^ 53")
    case True
    from big [of "2 ^ 53" 53] True have "u \<le> 970" by simp
    moreover have "v = of_int (2 ^ 52) * pow2 (u + 1)"
    proof -
      have "pow2 1 = 2" by (simp add: pow2_def)
      then have "pow2 (u + 1) = pow2 u * 2" by (simp add: pow2_add)
      then show ?thesis by (simp add: v_def True)
    qed
    ultimately show ?thesis
      unfolding is_double_def using ulo
      by (intro exI [of _ "2 ^ 52"] exI [of _ "u + 1"]) simp
  next
    case False
    with m53 have mlt: "m < 2 ^ 53" by simp
    have "u \<le> 971"
    proof (cases "u = - 1074")
      case True
      then show ?thesis by simp
    next
      case False
      then have u: "u = fl - 52" by (simp add: u_def max_def split: if_splits)
      then have "pow2 fl = pow2 52 * pow2 u" by (simp add: pow2_add [symmetric])
      with lo have "pow2 52 * pow2 u \<le> \<bar>q\<bar>" by simp
      then have "pow2 52 \<le> \<bar>q\<bar> / pow2 u" using up by (simp add: pos_le_divide_eq)
      then have "of_int (2 ^ 52) \<le> \<bar>q\<bar> / pow2 u" by (simp add: pow2_def)
      then have "2 ^ 52 \<le> m" unfolding m_def by (rule round_half_even_ge_int)
      from big [OF this, of 52] show ?thesis by simp
    qed
    with mlt m0 ulo show ?thesis
      unfolding is_double_def v_def
      by (intro exI [of _ m] exI [of _ u]) simp
  qed
  show ?thesis
  proof (cases "0 < q")
    case True
    with r dv show ?thesis by simp
  next
    case False
    from dv obtain m' e' where "\<bar>m'\<bar> < 2 ^ 53" "- 1074 \<le> e'" "e' \<le> 971" "v = of_int m' * pow2 e'"
      by (auto simp add: is_double_def)
    then have "\<bar>- m'\<bar> < 2 ^ 53 \<and> - 1074 \<le> e' \<and> e' \<le> 971 \<and> - v = of_int (- m') * pow2 e'"
      by simp
    then have "is_double (- v)" unfolding is_double_def by blast
    with False r show ?thesis by simp
  qed
qed

lemma fadd_zero_left: "is_double x \<Longrightarrow> fadd (Finite 0) (Finite x) = Finite x"
  by (simp add: round_double_exact)

lemma round_double_of_pos_int:
  assumes "0 < m" "m < 2 ^ 53"
  shows "round_double (of_int m) = Finite (of_int m)"
  using round_double_exact_pos [OF assms, of 0] by (simp add: pow2_def)

lemma round_double_of_int:
  assumes "\<bar>n\<bar> < 2 ^ 53"
  shows "round_double (of_int n) = Finite (of_int n)"
proof (cases "0 < n")
  case True
  with assms show ?thesis by (simp add: round_double_of_pos_int)
next
  case False
  show ?thesis
  proof (cases "n = 0")
    case True
    then show ?thesis by (simp add: round_double_def)
  next
    case False
    with \<open>\<not> 0 < n\<close> assms have "0 < - n" "- n < 2 ^ 53" by simp_all
    then have "round_double (of_int (- n)) = Finite (of_int (- n))"
      by (rule round_double_of_pos_int)
    then have "fneg (round_double (of_int n)) = Finite (- of_int n)"
      by (simp add: round_double_minus)
    then show ?thesis by (cases "round_double (of_int n)") simp_all
  qed
qed

lemma fadd_of_int:
  "\<bar>a + b\<bar> < 2 ^ 53 \<Longrightarrow> fadd (Finite (of_int a)) (Finite (of_int b)) = Finite (of_int (a + b))"
  using round_double_of_int [of "a + b"] by simp

lemma fsub_of_int:
  "\<bar>a - b\<bar> < 2 ^ 53 \<Longrightarrow> fsub (Finite (of_int a)) (Finite (of_int b)) = Finite (of_int (a - b))"
  using round_double_of_int [of "a - b"] by (simp add: fsub_def)

lemma fadd_0_100: "fadd (Finite 0) (Finite 100) = Finite 100"
  using fadd_of_int [of 0 100] by simp

lemma fsub_100_50: "fsub (Finite 100) (Finite 50) = Finite 50"
  using fsub_of_int [of 100 50] by simp




text \<open>
  The double nearest to 0.1 is a little above it, and yet ten of them add up to the double just
  below 1: each addition rounds.
\<close>

lemma double_of_tenth: "round_double (1 / 10) = Finite (3602879701896397 / 2 ^ 55)"
  by code_simp

lemma ten_tenths:
  "foldl fadd (Finite 0) (replicate 10 (Finite (3602879701896397 / 2 ^ 55))) =
     Finite (1 - 1 / 2 ^ 53)"
  by code_simp

lemma ten_tenths_below_one:
  "\<not> fgt (foldl fadd (Finite 0) (replicate 10 (Finite (3602879701896397 / 2 ^ 55)))) (Finite 1)"
  by (simp only: ten_tenths) simp

subsection \<open>Formatting and dates\<close>

lemma decimal_1234: "decimal 1234 = ''1234''" by code_simp
lemma decimal_3000: "decimal 3000 = ''3000''" by code_simp
lemma decimal_50: "decimal 50 = ''50''" by code_simp
lemma group3_1234: "group3 ''1234'' = ''1,234''" by code_simp
lemma group3_3000: "group3 ''3000'' = ''3,000''" by code_simp
lemma group3_50: "group3 ''50'' = ''50''" by code_simp
lemma zero_pad_2_50: "zero_pad 2 50 = ''50''" by code_simp
lemma zero_pad_2_0: "zero_pad 2 0 = ''00''" by code_simp

lemma fmt_finite_1234_50: "fmt_finite (2469 / 2) = ''1,234.50''"
  using round_half_even_of_int [of 123450]
  by (simp add: fmt_finite_def decimal_1234 group3_1234 zero_pad_2_50 Let_def
      del: decimal.simps group3.simps)

lemma fmt_finite_3000: "fmt_finite 3000 = ''3,000.00''"
  using round_half_even_of_int [of 300000]
  by (simp add: fmt_finite_def decimal_3000 group3_3000 zero_pad_2_0 Let_def
      del: decimal.simps group3.simps)

lemma fmt_finite_50: "fmt_finite 50 = ''50.00''"
  using round_half_even_of_int [of 5000]
  by (simp add: fmt_finite_def decimal_50 group3_50 zero_pad_2_0 Let_def
      del: decimal.simps group3.simps)

lemma decimal_2025: "decimal 2025 = ''2025''" by code_simp
lemma decimal_8: "decimal 8 = ''8''" by code_simp

lemma strftime_Ym_aug_2025: "strftime_Ym \<lparr>year = 2025, month = 8, day = d\<rparr> = ''2025-08''"
  by (simp add: strftime_Ym_def zero_pad_def decimal_2025 decimal_8 del: decimal.simps)

lemma filter_length_eq: "length (filter P xs) = length xs \<Longrightarrow> filter P xs = xs"
  by (metis length_filter_less less_irrefl_nat filter_True)

lemma no_deleted_iff:
  "(length xs - length (filter P xs) = 0) = (\<forall>x\<in>set xs. P x)"
proof
  assume "length xs - length (filter P xs) = 0"
  then have "length (filter P xs) = length xs"
    using length_filter_le [of P xs] by simp
  then show "\<forall>x\<in>set xs. P x"
    by (metis filter_length_eq filter_id_conv)
next
  assume "\<forall>x\<in>set xs. P x"
  then show "length xs - length (filter P xs) = 0" by simp
qed

lemma capitalize_strip_food: "capitalize (strip ''food'') = ''Food''"
  by code_simp

lemma set_sorted_reverse: "set (sorted_reverse k xs) = set xs"
  by (simp add: sorted_reverse_def)

lemma in_enumerate_int:
  "((i, e) \<in> set (enumerate_int xs)) = (0 \<le> i \<and> i < int (length xs) \<and> e = xs ! nat i)"
proof
  assume "(i, e) \<in> set (enumerate_int xs)"
  then obtain n where n: "n < length xs" "i = int n" "e = xs ! n"
    by (auto simp add: enumerate_int_def in_set_zip)
  then show "0 \<le> i \<and> i < int (length xs) \<and> e = xs ! nat i" by simp
next
  assume a: "0 \<le> i \<and> i < int (length xs) \<and> e = xs ! nat i"
  then have "nat i < length xs" by (simp add: nat_less_iff)
  with a show "(i, e) \<in> set (enumerate_int xs)"
    by (auto simp add: enumerate_int_def in_set_zip intro!: exI [of _ "nat i"])
qed

lemma in_expenses_summary:
  "((i, e) \<in> set (fst (get_expenses_summary t))) =
     (0 \<le> i \<and> i < int (length (expenses t)) \<and> e = expenses t ! nat i)"
  by (simp add: get_expenses_summary_def Let_def set_sorted_reverse in_enumerate_int)

lemma add_expense_tracker:
  "fst (snd (add_expense today amt cat d tg w)) =
     (fst w)\<lparr>expenses := expenses (fst w) @
        [\<lparr>amount = amt, date = d, category = capitalize (strip cat), tag = strip tg\<rparr>]\<rparr>"
  by (simp add: add_expense_def save_def Let_def)

text \<open>
  The store tests the current month in two ways: \<^verbatim>\<open>date[:7] == current_month\<close> in the
  aggregations and \<^verbatim>\<open>date.startswith(filter_str)\<close> in the period filter. For a clock date
  within the range of \<^verbatim>\<open>datetime.date\<close> the formatted month has seven characters, and the
  two tests agree.
\<close>

lemma length_decimal_le: "n < 10 ^ k \<Longrightarrow> 0 < k \<Longrightarrow> length (decimal n) \<le> k"
proof (induction n arbitrary: k rule: decimal.induct)
  case (1 n)
  show ?case
  proof (cases "n < 10")
    case True
    with "1.prems" show ?thesis by simp
  next
    case False
    with "1.prems" obtain j where k: "k = Suc j" "0 < j"
      by (cases k; cases "k - 1") auto
    with "1.prems" have "n div 10 < 10 ^ j" by (simp add: less_mult_imp_div_less mult.commute)
    with "1.IH" [of j] False k have "length (decimal (n div 10)) \<le> j" by simp
    with False k show ?thesis by (subst decimal.simps) simp
  qed
qed

lemma length_zero_pad: "n < 10 ^ w \<Longrightarrow> 0 < w \<Longrightarrow> length (zero_pad w n) = w"
  using length_decimal_le [of n w] by (simp add: zero_pad_def del: decimal.simps)

lemma length_strftime_Ym:
  "year d < 10000 \<Longrightarrow> month d < 100 \<Longrightarrow> length (strftime_Ym d) = 7"
  using length_zero_pad [of "year d" 4] length_zero_pad [of "month d" 2]
  by (simp add: strftime_Ym_def)

lemma month_test_is_prefix:
  "year d < 10000 \<Longrightarrow> month d < 100 \<Longrightarrow>
   (take 7 s = strftime_Ym d) = startswith s (strftime_Ym d)"
  by (simp add: startswith_def length_strftime_Ym)

subsection \<open>Monthly spending by category\<close>

text \<open>
  The loop of \<^verbatim>\<open>_get_category_spending\<close> keeps one running total per category. The total
  of a category is the sum, from left to right and starting from 0.0, of the amounts of its
  expenses dated in the current month, in the order of the store.
\<close>

lemma dict_get_update:
  "dict_get (AList.update k v d) c dflt = (if c = k then v else dict_get d c dflt)"
  by (simp add: dict_get_def update_conv')

lemma spending_loop_keys:
  "fst ` set (spending_loop cm es acc) =
     fst ` set acc \<union> {category e |e. e \<in> set es \<and> take 7 (date e) = cm}"
proof (induction es arbitrary: acc)
  case Nil
  show ?case by simp
next
  case (Cons e es)
  show ?case
  proof (cases "take 7 (date e) = cm")
    case True
    then show ?thesis by (auto simp add: Cons.IH dom_update)
  next
    case False
    then show ?thesis by (auto simp add: Cons.IH)
  qed
qed

lemma spending_loop_get:
  "dict_get (spending_loop cm es acc) c (Finite 0) =
     foldl fadd (dict_get acc c (Finite 0))
       (map amount (filter (\<lambda>e. take 7 (date e) = cm \<and> category e = c) es))"
proof (induction es arbitrary: acc)
  case Nil
  show ?case by simp
next
  case (Cons e es)
  show ?case by (simp add: Cons.IH dict_get_update)
qed

lemma category_spending_keys:
  "set (dict_keys (get_category_spending today t)) =
     {category e |e. e \<in> set (expenses t) \<and> take 7 (date e) = strftime_Ym today}"
  by (simp add: get_category_spending_def dict_keys_def spending_loop_keys)

lemma category_spending_get:
  "dict_get (get_category_spending today t) c (Finite 0) =
     foldl fadd (Finite 0) (map amount
       (filter (\<lambda>e. take 7 (date e) = strftime_Ym today \<and> category e = c) (expenses t)))"
proof -
  have "dict_get ([] :: money dict) c (Finite 0) = Finite 0" by (simp add: dict_get_def)
  then show ?thesis by (simp add: get_category_spending_def spending_loop_get)
qed

lemma report_entry_fields:
  "row_category (report_entry bs sp c) = c \<and>
   row_budget (report_entry bs sp c) = dict_get bs c (Finite 0) \<and>
   row_spent (report_entry bs sp c) = dict_get sp c (Finite 0) \<and>
   row_remaining (report_entry bs sp c) =
     fsub (dict_get bs c (Finite 0)) (dict_get sp c (Finite 0))"
  by (simp add: report_entry_def Let_def split: prod.split)

lemma report_entry_status:
  "row_status (report_entry bs sp c) =
     (if fgt (dict_get sp c (Finite 0)) (dict_get bs c (Finite 0)) \<and>
         fgt (dict_get bs c (Finite 0)) (Finite 0) then ''OVER BUDGET''
      else if feq (dict_get bs c (Finite 0)) (Finite 0) then ''NO BUDGET SET'' else ''On Track'')"
  by (simp add: report_entry_def Let_def split: prod.split)

lemma feq_zero_not_positive: "feq b (Finite 0) \<Longrightarrow> \<not> fgt b (Finite 0)"
  by (simp add: feq_def)

lemma example_report:
  "get_budget_report \<lparr>year = 2025, month = 8, day = 20\<rparr>
     \<lparr>expenses = [\<lparr>amount = Finite 100, date = ''2025-08-01'', category = ''Food'', tag = []\<rparr>,
                  \<lparr>amount = Finite 7, date = ''2025-08-03'', category = ''Car'', tag = ''fuel''\<rparr>,
                  \<lparr>amount = Finite 20, date = ''2025-07-30'', category = ''Food'', tag = []\<rparr>],
      budgets = [(''Rent'', Finite 700), (''Food'', Finite 50)],
      incomes = []\<rparr> =
   [\<lparr>row_category = ''Car'', row_budget = Finite 0, row_spent = Finite 7,
      row_remaining = Finite (- 7),
      row_status = ''NO BUDGET SET'', row_status_class = []\<rparr>,
    \<lparr>row_category = ''Food'', row_budget = Finite 50, row_spent = Finite 100,
      row_remaining = Finite (- 50),
      row_status = ''OVER BUDGET'', row_status_class = ''negative''\<rparr>,
    \<lparr>row_category = ''Rent'', row_budget = Finite 700, row_spent = Finite 0,
      row_remaining = Finite 700,
      row_status = ''On Track'', row_status_class = ''positive''\<rparr>]"
  by code_simp

lemma add_expense_message:
  "snd (fst (add_expense today amt cat d tg w)) =
     ''Expense added successfully.'' @
     (case map_of (budgets (fst w)) (capitalize (strip cat)) of
        None \<Rightarrow> []
      | Some limit \<Rightarrow>
          (let spend = foldl fadd (Finite 0) (map amount (filter
                 (\<lambda>e. take 7 (date e) = strftime_Ym today \<and> category e = capitalize (strip cat))
                 (expenses (fst w) @
                    [\<lparr>amount = amt, date = d, category = capitalize (strip cat), tag = strip tg\<rparr>])))
           in if fgt spend limit
              then '' '' @ siren @ '' BUDGET ALERT: Spending in '' @ capitalize (strip cat)
                   @ '' exceeds budget of $'' @ fmt_money limit
                   @ '' by $'' @ fmt_money (fsub spend limit) @ ''!''
              else []))"
proof (cases "map_of (budgets (fst w)) (capitalize (strip cat))")
  case None
  then show ?thesis by (simp add: add_expense_def Let_def dict_in_def)
next
  case (Some limit)
  then have "dict_get (budgets (fst w)) (capitalize (strip cat)) (Finite 0) = limit"
    by (simp add: dict_get_def)
  with Some show ?thesis
    by (simp add: add_expense_def Let_def dict_in_def category_spending_get)
qed

text \<open>
  Rounding shows in the aggregations. Ten expenses of 0.1 stay within a budget of 1.0, a
  tenth expense of 0.1 raises no alert against it, and incomes of 0.1 and 0.2 total
  0.30000000000000004.
\<close>

lemma report_of_ten_tenths:
  "get_budget_report \<lparr>year = 2025, month = 8, day = 20\<rparr>
     \<lparr>expenses = replicate 10
        \<lparr>amount = Finite (3602879701896397 / 2 ^ 55), date = ''2025-08-01'',
         category = ''Food'', tag = []\<rparr>,
      budgets = [(''Food'', Finite 1)], incomes = []\<rparr> =
   [\<lparr>row_category = ''Food'', row_budget = Finite 1,
     row_spent = Finite (1 - 1 / 2 ^ 53), row_remaining = Finite (1 / 2 ^ 53),
     row_status = ''On Track'', row_status_class = ''positive''\<rparr>]"
  by code_simp

lemma tenth_tenth_no_alert:
  "fst (add_expense \<lparr>year = 2025, month = 8, day = 20\<rparr>
     (Finite (3602879701896397 / 2 ^ 55)) ''food'' ''2025-08-09'' []
     (\<lparr>expenses = replicate 9
        \<lparr>amount = Finite (3602879701896397 / 2 ^ 55), date = ''2025-08-01'',
         category = ''Food'', tag = []\<rparr>,
      budgets = [(''Food'', Finite 1)], incomes = []\<rparr>, Absent)) =
   (True, ''Expense added successfully.'')"
  by code_simp

lemma net_savings_of_two_tenths:
  "calculate_net_savings \<lparr>year = 2025, month = 8, day = 20\<rparr>
     \<lparr>expenses = [], budgets = [],
      incomes = [\<lparr>amount = Finite (3602879701896397 / 2 ^ 55), date = ''2025-08-01'', source = ''A''\<rparr>,
                 \<lparr>amount = Finite (3602879701896397 / 2 ^ 54), date = ''2025-08-02'', source = ''B''\<rparr>]\<rparr> =
   (Finite (1351079888211149 / 2 ^ 52), Finite 0, Finite (1351079888211149 / 2 ^ 52))"
  by code_simp

subsection \<open>Period filter\<close>

text \<open>
  C7. With period \<^verbatim>\<open>'all'\<close> the helper returns its input; with \<^verbatim>\<open>'month'\<close> it keeps, in their
  original order, exactly the records whose date string begins with today's \<^verbatim>\<open>YYYY-MM\<close>; with
  \<^verbatim>\<open>'year'\<close> exactly those whose date string begins with today's \<^verbatim>\<open>YYYY\<close>.
\<close>

theorem filter_transactions_periods:
  "filter_transactions today records ''all'' = records \<and>
   filter_transactions today records ''month'' =
     filter (\<lambda>r. prefix (strftime_Ym today) (date r)) records \<and>
   filter_transactions today records ''year'' =
     filter (\<lambda>r. prefix (strftime_Y today) (date r)) records"
  by (simp add: filter_transactions_def startswith_prefix)

text \<open>
  C10. A period other than \<^verbatim>\<open>'all'\<close>, \<^verbatim>\<open>'month'\<close> and \<^verbatim>\<open>'year'\<close> filters nothing out: the
  helper is total and returns the input list as it is.
\<close>

theorem filter_transactions_unrecognized:
  "filter_type \<noteq> ''all'' \<Longrightarrow> filter_type \<noteq> ''month'' \<Longrightarrow> filter_type \<noteq> ''year'' \<Longrightarrow>
   filter_transactions today records filter_type = records"
  by (simp add: filter_transactions_def)

theorem filter_transactions_unrecognized_witness:
  "''week'' \<noteq> ''all'' \<and> ''week'' \<noteq> ''month'' \<and> ''week'' \<noteq> ''year'' \<and>
   filter_transactions \<lparr>year = 2025, month = 8, day = 20\<rparr>
     [\<lparr>amount = Finite 100, date = ''2024-01-05'', category = ''Food'', tag = []\<rparr>,
      \<lparr>amount = Finite 7, date = ''2025-08-03'', category = ''Car'', tag = ''fuel''\<rparr>] ''week''
   = [\<lparr>amount = Finite 100, date = ''2024-01-05'', category = ''Food'', tag = []\<rparr>,
      \<lparr>amount = Finite 7, date = ''2025-08-03'', category = ''Car'', tag = ''fuel''\<rparr>]"
  using filter_transactions_unrecognized [of "''week''" "\<lparr>year = 2025, month = 8, day = 20\<rparr>"
      "[\<lparr>amount = Finite 100, date = ''2024-01-05'', category = ''Food'', tag = []\<rparr>,
      \<lparr>amount = Finite 7, date = ''2025-08-03'', category = ''Car'', tag = ''fuel''\<rparr>]"]
  by simp

subsection \<open>Persistence\<close>

text \<open>
  C8. Loading what \<^verbatim>\<open>save_data\<close> wrote gives back the three collections: the expenses and
  the incomes element for element in the same order (tags included), and the budgets with the
  same category-to-limit pairs.
\<close>

theorem save_then_load_identity:
  "expenses (load_data (save_data es bs ins)) = es \<and>
   incomes (load_data (save_data es bs ins)) = ins \<and>
   budgets (load_data (save_data es bs ins)) = bs \<and>
   map tag (expenses (load_data (save_data es bs ins))) = map tag es \<and>
   set (budgets (load_data (save_data es bs ins))) = set bs"
  by (simp add: load_data_def save_data_def json_load_def
      comprehension_Expense_roundtrip comprehension_Income_roundtrip)

text \<open>
  C9. When the file is missing (\<^verbatim>\<open>FileNotFoundError\<close>) or is not valid JSON
  (\<^verbatim>\<open>JSONDecodeError\<close>), \<^verbatim>\<open>load_data\<close> returns the three empty collections; its result is
  a plain value in both cases, no error.
\<close>

theorem load_data_starts_empty:
  "json_load Absent = Inl FileNotFoundError \<and>
   load_data Absent = \<lparr>expenses = [], budgets = [], incomes = []\<rparr> \<and>
   json_load Invalid_JSON = Inl JSONDecodeError \<and>
   load_data Invalid_JSON = \<lparr>expenses = [], budgets = [], incomes = []\<rparr>"
  by (simp add: load_data_def json_load_def)

subsection \<open>Net savings\<close>


subsection \<open>Removal by index\<close>

text \<open>
  C5. For an index below 0 or not below the length of the sequence, \<^verbatim>\<open>remove_expense\<close>
  (\<^verbatim>\<open>remove_income\<close>) reports the invalid index and returns tracker and file as they were.
  For an index in range it succeeds with the description of the record at that position, and
  the tracker differs only in that sequence, which is the records before the position
  followed by the records after it.
\<close>

theorem remove_by_index:
  "(index < 0 \<or> int (length (expenses (fst w))) \<le> index \<longrightarrow>
      remove_expense index w = ((False, ''Invalid expense index.''), w)) \<and>
   (0 \<le> index \<and> index < int (length (expenses (fst w))) \<longrightarrow>
      fst (remove_expense index w) =
        (True, ''Expense on '' @ date (expenses (fst w) ! nat index) @ '' for $''
           @ fmt_money (amount (expenses (fst w) ! nat index)) @ '' (''
           @ category (expenses (fst w) ! nat index) @ '') removed successfully.'') \<and>
      fst (snd (remove_expense index w)) =
        (fst w)\<lparr>expenses := take (nat index) (expenses (fst w))
                               @ drop (Suc (nat index)) (expenses (fst w))\<rparr>) \<and>
   (index < 0 \<or> int (length (incomes (fst w))) \<le> index \<longrightarrow>
      remove_income index w = ((False, ''Invalid income index.''), w)) \<and>
   (0 \<le> index \<and> index < int (length (incomes (fst w))) \<longrightarrow>
      fst (remove_income index w) =
        (True, ''Income on '' @ date (incomes (fst w) ! nat index) @ '' from ''
           @ source (incomes (fst w) ! nat index) @ '' ($''
           @ fmt_money (amount (incomes (fst w) ! nat index)) @ '') removed successfully.'') \<and>
      fst (snd (remove_income index w)) =
        (fst w)\<lparr>incomes := take (nat index) (incomes (fst w))
                              @ drop (Suc (nat index)) (incomes (fst w))\<rparr>)"
  by (simp add: remove_expense_def remove_income_def pop_def save_def Let_def)

theorem remove_by_index_witness:
  "(let w = (\<lparr>expenses = [\<lparr>amount = Finite 100, date = ''2025-08-01'', category = ''Food'', tag = []\<rparr>,
                            \<lparr>amount = Finite 1234.5, date = ''2025-08-03'', category = ''Car'', tag = ''fuel''\<rparr>],
              budgets = [(''Food'', Finite 50)],
              incomes = [\<lparr>amount = Finite 3000, date = ''2025-08-01'', source = ''Salary''\<rparr>]\<rparr>, Absent)
    in remove_expense 2 w = ((False, ''Invalid expense index.''), w) \<and>
       remove_expense (- 1) w = ((False, ''Invalid expense index.''), w) \<and>
       remove_income 1 w = ((False, ''Invalid income index.''), w) \<and>
       fst (remove_expense 1 w) =
         (True, ''Expense on 2025-08-03 for $1,234.50 (Car) removed successfully.'') \<and>
       expenses (fst (snd (remove_expense 1 w))) =
         [\<lparr>amount = Finite 100, date = ''2025-08-01'', category = ''Food'', tag = []\<rparr>] \<and>
       fst (remove_income 0 w) =
         (True, ''Income on 2025-08-01 from Salary ($3,000.00) removed successfully.'') \<and>
       incomes (fst (snd (remove_income 0 w))) = [])"
proof -
  let ?w = "(\<lparr>expenses = [\<lparr>amount = Finite 100, date = ''2025-08-01'', category = ''Food'', tag = []\<rparr>,
                            \<lparr>amount = Finite 1234.5, date = ''2025-08-03'', category = ''Car'', tag = ''fuel''\<rparr>],
              budgets = [(''Food'', Finite 50)],
              incomes = [\<lparr>amount = Finite 3000, date = ''2025-08-01'', source = ''Salary''\<rparr>]\<rparr>, Absent)"
  from remove_by_index [of 2 ?w]
  have a: "remove_expense 2 ?w = ((False, ''Invalid expense index.''), ?w)" by simp
  from remove_by_index [of "- 1" ?w]
  have b: "remove_expense (- 1) ?w = ((False, ''Invalid expense index.''), ?w)" by simp
  from remove_by_index [of 1 ?w]
  have c: "remove_income 1 ?w = ((False, ''Invalid income index.''), ?w)"
    and d: "fst (remove_expense 1 ?w) =
         (True, ''Expense on 2025-08-03 for $1,234.50 (Car) removed successfully.'')"
    and e: "expenses (fst (snd (remove_expense 1 ?w))) =
         [\<lparr>amount = Finite 100, date = ''2025-08-01'', category = ''Food'', tag = []\<rparr>]"
    by (simp_all add: fmt_finite_1234_50)
  from remove_by_index [of 0 ?w]
  have f: "fst (remove_income 0 ?w) =
         (True, ''Income on 2025-08-01 from Salary ($3,000.00) removed successfully.'')"
    and g: "incomes (fst (snd (remove_income 0 ?w))) = []"
    by (simp_all add: fmt_finite_3000)
  from a b c d e f g show ?thesis by (simp add: Let_def)
qed

subsection \<open>Deleting a category\<close>

text \<open>
  C4. \<^verbatim>\<open>delete_category\<close> keeps exactly the expenses whose category differs from the
  normalized name, removes that name's budget entry and no other, and leaves the incomes. It
  reports failure exactly when no expense had the category and no budget entry existed, and
  then the tracker is as before.
\<close>

theorem delete_category_effect:
  "expenses (fst (snd (delete_category category_name w))) =
     filter (\<lambda>ex. category ex \<noteq> capitalize (strip category_name)) (expenses (fst w)) \<and>
   budgets (fst (snd (delete_category category_name w))) =
     filter (\<lambda>(k, v). k \<noteq> capitalize (strip category_name)) (budgets (fst w)) \<and>
   map_of (budgets (fst (snd (delete_category category_name w)))) =
     (map_of (budgets (fst w)))(capitalize (strip category_name) := None) \<and>
   incomes (fst (snd (delete_category category_name w))) = incomes (fst w) \<and>
   (fst (fst (delete_category category_name w)) = False \<longleftrightarrow>
      (\<forall>ex\<in>set (expenses (fst w)). category ex \<noteq> capitalize (strip category_name)) \<and>
      map_of (budgets (fst w)) (capitalize (strip category_name)) = None) \<and>
   (fst (fst (delete_category category_name w)) = False \<longrightarrow>
      fst (snd (delete_category category_name w)) = fst w)"
proof -
  let ?c = "capitalize (strip category_name)"
  let ?kept = "filter (\<lambda>ex. category ex \<noteq> ?c) (expenses (fst w))"
  have tr: "fst (snd (delete_category category_name w)) =
      (fst w)\<lparr>expenses := ?kept, budgets := AList.delete ?c (budgets (fst w))\<rparr>"
    by (simp add: delete_category_def save_def Let_def dict_in_def
        delete_id map_of_eq_None_iff)
  have ok: "fst (fst (delete_category category_name w)) =
      (\<not> (length (expenses (fst w)) - length ?kept = 0 \<and> map_of (budgets (fst w)) ?c = None))"
    by (simp add: delete_category_def Let_def dict_in_def)
  have cnt: "(length (expenses (fst w)) - length ?kept = 0) =
      (\<forall>ex\<in>set (expenses (fst w)). category ex \<noteq> ?c)"
    by (rule no_deleted_iff)
  have e: "expenses (fst (snd (delete_category category_name w))) = ?kept"
    by (simp add: tr)
  have b: "budgets (fst (snd (delete_category category_name w))) =
      filter (\<lambda>(k, v). k \<noteq> ?c) (budgets (fst w))"
    by (auto simp add: tr AList.delete_eq intro: filter_cong)
  have m: "map_of (budgets (fst (snd (delete_category category_name w)))) =
      (map_of (budgets (fst w)))(?c := None)"
    by (simp add: tr delete_conv')
  have i: "incomes (fst (snd (delete_category category_name w))) = incomes (fst w)"
    by (simp add: tr)
  have f: "(fst (fst (delete_category category_name w)) = False) =
      ((\<forall>ex\<in>set (expenses (fst w)). category ex \<noteq> ?c) \<and>
       map_of (budgets (fst w)) ?c = None)"
    using ok cnt by simp
  have u: "fst (fst (delete_category category_name w)) = False \<longrightarrow>
      fst (snd (delete_category category_name w)) = fst w"
  proof
    assume "fst (fst (delete_category category_name w)) = False"
    with f have all: "\<forall>ex\<in>set (expenses (fst w)). category ex \<noteq> ?c"
      and none: "map_of (budgets (fst w)) ?c = None" by simp_all
    from all have "?kept = expenses (fst w)" by simp
    moreover from none have "AList.delete ?c (budgets (fst w)) = budgets (fst w)"
      by (simp add: delete_id map_of_eq_None_iff)
    ultimately show "fst (snd (delete_category category_name w)) = fst w"
      by (simp add: tr)
  qed
  from e b m i f u show ?thesis by blast
qed

theorem delete_category_effect_witness:
  "(let w = (\<lparr>expenses = [\<lparr>amount = Finite 100, date = ''2025-08-01'', category = ''Food'', tag = []\<rparr>,
                            \<lparr>amount = Finite 7, date = ''2025-08-03'', category = ''Car'', tag = ''fuel''\<rparr>],
              budgets = [(''Food'', Finite 50), (''Rent'', Finite 700)],
              incomes = [\<lparr>amount = Finite 3000, date = ''2025-08-01'', source = ''Salary''\<rparr>]\<rparr>, Absent)
    in fst (fst (delete_category '' food '' w)) = True \<and>
       expenses (fst (snd (delete_category '' food '' w))) =
         [\<lparr>amount = Finite 7, date = ''2025-08-03'', category = ''Car'', tag = ''fuel''\<rparr>] \<and>
       budgets (fst (snd (delete_category '' food '' w))) = [(''Rent'', Finite 700)] \<and>
       fst (fst (delete_category ''boat'' w)) = False \<and>
       fst (snd (delete_category ''boat'' w)) = fst w)"
proof -
  let ?w = "(\<lparr>expenses = [\<lparr>amount = Finite 100, date = ''2025-08-01'', category = ''Food'', tag = []\<rparr>,
                            \<lparr>amount = Finite 7, date = ''2025-08-03'', category = ''Car'', tag = ''fuel''\<rparr>],
              budgets = [(''Food'', Finite 50), (''Rent'', Finite 700)],
              incomes = [\<lparr>amount = Finite 3000, date = ''2025-08-01'', source = ''Salary''\<rparr>]\<rparr>, Absent)"
  have c: "capitalize (strip '' food '') = ''Food''" by code_simp
  have ok: "fst (fst (delete_category '' food '' ?w)) = True" by code_simp
  have no: "fst (fst (delete_category ''boat'' ?w)) = False" by code_simp
  from delete_category_effect [of "'' food ''" ?w]
  have "expenses (fst (snd (delete_category '' food '' ?w))) =
         [\<lparr>amount = Finite 7, date = ''2025-08-03'', category = ''Car'', tag = ''fuel''\<rparr>]"
    and "budgets (fst (snd (delete_category '' food '' ?w))) = [(''Rent'', Finite 700)]"
    by (simp_all add: c)
  moreover from delete_category_effect [of "''boat''" ?w] no
  have "fst (snd (delete_category ''boat'' ?w)) = fst ?w" by blast
  ultimately show ?thesis using ok no by (simp add: Let_def)
qed

subsection \<open>Budget report\<close>

text \<open>
  C1. The report has one row per category, in sorted order and without repetition, for
  exactly the categories that have a budget entry or an expense dated in the current month.
  In every row the budget is the configured limit, or 0 when there is none; the spent amount
  is the total of the category's expenses dated in the current month, added from left to
  right as floats; the remainder is budget minus spent; and the status is \<^verbatim>\<open>OVER BUDGET\<close>
  exactly when \<^verbatim>\<open>spent > budget\<close> and \<^verbatim>\<open>budget > 0\<close>, \<^verbatim>\<open>NO BUDGET SET\<close> exactly when
  \<^verbatim>\<open>budget == 0\<close>, and \<^verbatim>\<open>On Track\<close> in the remaining case.
\<close>

theorem budget_report_entries:
  "sorted (map row_category (get_budget_report today t)) \<and>
   distinct (map row_category (get_budget_report today t)) \<and>
   set (map row_category (get_budget_report today t)) =
     fst ` set (budgets t) \<union>
     {category e |e. e \<in> set (expenses t) \<and> take 7 (date e) = strftime_Ym today} \<and>
   (\<forall>r\<in>set (get_budget_report today t).
      row_budget r =
        (case map_of (budgets t) (row_category r) of None \<Rightarrow> Finite 0 | Some b \<Rightarrow> b) \<and>
      row_spent r = foldl fadd (Finite 0) (map amount (filter
        (\<lambda>e. take 7 (date e) = strftime_Ym today \<and> category e = row_category r) (expenses t))) \<and>
      row_remaining r = fsub (row_budget r) (row_spent r) \<and>
      (row_status r = ''OVER BUDGET'') =
        (fgt (row_spent r) (row_budget r) \<and> fgt (row_budget r) (Finite 0)) \<and>
      (row_status r = ''NO BUDGET SET'') = feq (row_budget r) (Finite 0) \<and>
      (row_status r = ''On Track'') =
        (\<not> (fgt (row_spent r) (row_budget r) \<and> fgt (row_budget r) (Finite 0)) \<and>
         \<not> feq (row_budget r) (Finite 0)))"
proof -
  let ?sp = "get_category_spending today t"
  let ?cats = "sort (remdups (dict_keys (budgets t) @ dict_keys ?sp))"
  have rep: "get_budget_report today t = map (report_entry (budgets t) ?sp) ?cats"
    by (simp add: get_budget_report_def Let_def)
  have cats: "map row_category (get_budget_report today t) = ?cats"
    by (simp add: rep comp_def report_entry_fields)
  have s: "sorted (map row_category (get_budget_report today t))"
    by (simp only: cats sorted_sort)
  have d: "distinct (map row_category (get_budget_report today t))"
    by (simp only: cats distinct_sort distinct_remdups)
  have u: "set (map row_category (get_budget_report today t)) =
     fst ` set (budgets t) \<union>
     {category e |e. e \<in> set (expenses t) \<and> take 7 (date e) = strftime_Ym today}"
    using category_spending_keys [of today t]
    by (simp add: cats dict_keys_def)
  have rows: "\<forall>r\<in>set (get_budget_report today t).
      row_budget r =
        (case map_of (budgets t) (row_category r) of None \<Rightarrow> Finite 0 | Some b \<Rightarrow> b) \<and>
      row_spent r = foldl fadd (Finite 0) (map amount (filter
        (\<lambda>e. take 7 (date e) = strftime_Ym today \<and> category e = row_category r) (expenses t))) \<and>
      row_remaining r = fsub (row_budget r) (row_spent r) \<and>
      (row_status r = ''OVER BUDGET'') =
        (fgt (row_spent r) (row_budget r) \<and> fgt (row_budget r) (Finite 0)) \<and>
      (row_status r = ''NO BUDGET SET'') = feq (row_budget r) (Finite 0) \<and>
      (row_status r = ''On Track'') =
        (\<not> (fgt (row_spent r) (row_budget r) \<and> fgt (row_budget r) (Finite 0)) \<and>
         \<not> feq (row_budget r) (Finite 0))"
  proof
    fix r assume "r \<in> set (get_budget_report today t)"
    then obtain c where r: "r = report_entry (budgets t) ?sp c"
      by (auto simp add: rep)
    have b: "row_budget r =
        (case map_of (budgets t) (row_category r) of None \<Rightarrow> Finite 0 | Some b \<Rightarrow> b)"
      by (simp add: r report_entry_fields dict_get_def)
    have p: "row_spent r = foldl fadd (Finite 0) (map amount (filter
        (\<lambda>e. take 7 (date e) = strftime_Ym today \<and> category e = row_category r) (expenses t)))"
      by (simp add: r report_entry_fields category_spending_get)
    have m: "row_remaining r = fsub (row_budget r) (row_spent r)"
      by (simp add: r report_entry_fields)
    have st: "row_status r =
       (if fgt (row_spent r) (row_budget r) \<and> fgt (row_budget r) (Finite 0) then ''OVER BUDGET''
        else if feq (row_budget r) (Finite 0) then ''NO BUDGET SET'' else ''On Track'')"
      by (simp add: r report_entry_fields report_entry_status)
    have o: "(row_status r = ''OVER BUDGET'') =
        (fgt (row_spent r) (row_budget r) \<and> fgt (row_budget r) (Finite 0))"
      by (simp add: st)
    have n: "(row_status r = ''NO BUDGET SET'') = feq (row_budget r) (Finite 0)"
      using feq_zero_not_positive [of "row_budget r"] by (auto simp add: st)
    have k: "(row_status r = ''On Track'') =
        (\<not> (fgt (row_spent r) (row_budget r) \<and> fgt (row_budget r) (Finite 0)) \<and>
         \<not> feq (row_budget r) (Finite 0))"
      by (simp add: st)
    from b p m o n k
    show "row_budget r =
        (case map_of (budgets t) (row_category r) of None \<Rightarrow> Finite 0 | Some b \<Rightarrow> b) \<and>
      row_spent r = foldl fadd (Finite 0) (map amount (filter
        (\<lambda>e. take 7 (date e) = strftime_Ym today \<and> category e = row_category r) (expenses t))) \<and>
      row_remaining r = fsub (row_budget r) (row_spent r) \<and>
      (row_status r = ''OVER BUDGET'') =
        (fgt (row_spent r) (row_budget r) \<and> fgt (row_budget r) (Finite 0)) \<and>
      (row_status r = ''NO BUDGET SET'') = feq (row_budget r) (Finite 0) \<and>
      (row_status r = ''On Track'') =
        (\<not> (fgt (row_spent r) (row_budget r) \<and> fgt (row_budget r) (Finite 0)) \<and>
         \<not> feq (row_budget r) (Finite 0))"
      by blast
  qed
  from s d u rows show ?thesis by blast
qed

theorem budget_report_entries_witness:
  "(let rep = get_budget_report \<lparr>year = 2025, month = 8, day = 20\<rparr>
       \<lparr>expenses = [\<lparr>amount = Finite 100, date = ''2025-08-01'', category = ''Food'', tag = []\<rparr>,
                    \<lparr>amount = Finite 7, date = ''2025-08-03'', category = ''Car'', tag = ''fuel''\<rparr>,
                    \<lparr>amount = Finite 20, date = ''2025-07-30'', category = ''Food'', tag = []\<rparr>],
        budgets = [(''Rent'', Finite 700), (''Food'', Finite 50)],
        incomes = []\<rparr>
    in map row_category rep = [''Car'', ''Food'', ''Rent''] \<and>
       map row_budget rep = [Finite 0, Finite 50, Finite 700] \<and>
       map row_spent rep = [Finite 7, Finite 100, Finite 0] \<and>
       map row_remaining rep = [Finite (- 7), Finite (- 50), Finite 700] \<and>
       map row_status rep = [''NO BUDGET SET'', ''OVER BUDGET'', ''On Track''] \<and>
       sorted (map row_category rep) \<and> distinct (map row_category rep))"
proof -
  let ?today = "\<lparr>year = 2025, month = 8, day = 20\<rparr>"
  let ?t = "\<lparr>expenses = [\<lparr>amount = Finite 100, date = ''2025-08-01'', category = ''Food'', tag = []\<rparr>,
                    \<lparr>amount = Finite 7, date = ''2025-08-03'', category = ''Car'', tag = ''fuel''\<rparr>,
                    \<lparr>amount = Finite 20, date = ''2025-07-30'', category = ''Food'', tag = []\<rparr>],
        budgets = [(''Rent'', Finite 700), (''Food'', Finite 50)],
        incomes = []\<rparr>"
  from budget_report_entries [of ?today ?t]
  have "sorted (map row_category (get_budget_report ?today ?t))"
    and "distinct (map row_category (get_budget_report ?today ?t))"
    by blast+
  then show ?thesis
    unfolding Let_def by (simp add: example_report)
qed

subsection \<open>Adding an expense\<close>

text \<open>
  C2. \<^verbatim>\<open>add_expense\<close> appends the expense with its category normalized and its tag
  stripped, and succeeds. Its message carries the budget alert exactly when the category has
  a configured limit and the category's total for the current month, the new expense
  included and added as floats, is greater than the limit; the alert names the limit and the
  total minus the limit. With the single budget Food of 50, no expense yet, and the clock on
  any day of August 2025, adding 100 for \<^verbatim>\<open>"food"\<close> dated 2025-08-01 reports the budget of
  $50.00 exceeded by $50.00.
\<close>

theorem add_expense_alert:
  "(let c = capitalize (strip cat);
        ex = \<lparr>amount = amt, date = d, category = c, tag = strip tg\<rparr>;
        spend = foldl fadd (Finite 0) (map amount (filter
                  (\<lambda>e. take 7 (date e) = strftime_Ym today \<and> category e = c)
                  (expenses (fst w) @ [ex])));
        r = add_expense today amt cat d tg w
    in fst (snd r) = (fst w)\<lparr>expenses := expenses (fst w) @ [ex]\<rparr> \<and>
       fst (fst r) = True \<and>
       snd (fst r) = ''Expense added successfully.'' @
         (case map_of (budgets (fst w)) c of
            None \<Rightarrow> []
          | Some limit \<Rightarrow>
              if fgt spend limit
              then '' '' @ siren @ '' BUDGET ALERT: Spending in '' @ c
                   @ '' exceeds budget of $'' @ fmt_money limit
                   @ '' by $'' @ fmt_money (fsub spend limit) @ ''!''
              else []) \<and>
       (snd (fst r) \<noteq> ''Expense added successfully.'') =
         (\<exists>limit. map_of (budgets (fst w)) c = Some limit \<and> fgt spend limit)) \<and>
   snd (fst (add_expense \<lparr>year = 2025, month = 8, day = dd\<rparr> (Finite 100) ''food''
              ''2025-08-01'' []
              (\<lparr>expenses = [], budgets = [(''Food'', Finite 50)], incomes = ins\<rparr>, f))) =
     ''Expense added successfully. '' @ siren
       @ '' BUDGET ALERT: Spending in Food exceeds budget of $50.00 by $50.00!''"
proof -
  have general: "(let c = capitalize (strip cat);
        ex = \<lparr>amount = amt, date = d, category = c, tag = strip tg\<rparr>;
        spend = foldl fadd (Finite 0) (map amount (filter
                  (\<lambda>e. take 7 (date e) = strftime_Ym today \<and> category e = c)
                  (expenses (fst w) @ [ex])));
        r = add_expense today amt cat d tg w
    in fst (snd r) = (fst w)\<lparr>expenses := expenses (fst w) @ [ex]\<rparr> \<and>
       fst (fst r) = True \<and>
       snd (fst r) = ''Expense added successfully.'' @
         (case map_of (budgets (fst w)) c of
            None \<Rightarrow> []
          | Some limit \<Rightarrow>
              if fgt spend limit
              then '' '' @ siren @ '' BUDGET ALERT: Spending in '' @ c
                   @ '' exceeds budget of $'' @ fmt_money limit
                   @ '' by $'' @ fmt_money (fsub spend limit) @ ''!''
              else []) \<and>
       (snd (fst r) \<noteq> ''Expense added successfully.'') =
         (\<exists>limit. map_of (budgets (fst w)) c = Some limit \<and> fgt spend limit))"
    unfolding Let_def
  proof (intro conjI)
    show "fst (snd (add_expense today amt cat d tg w)) =
      (fst w)\<lparr>expenses := expenses (fst w) @
        [\<lparr>amount = amt, date = d, category = capitalize (strip cat), tag = strip tg\<rparr>]\<rparr>"
      by (rule add_expense_tracker)
    show "fst (fst (add_expense today amt cat d tg w)) = True"
      by (simp add: add_expense_def Let_def)
    show "snd (fst (add_expense today amt cat d tg w)) =
      ''Expense added successfully.'' @
      (case map_of (budgets (fst w)) (capitalize (strip cat)) of
         None \<Rightarrow> []
       | Some limit \<Rightarrow>
           if fgt (foldl fadd (Finite 0) (map amount (filter
                 (\<lambda>e. take 7 (date e) = strftime_Ym today \<and> category e = capitalize (strip cat))
                 (expenses (fst w) @
                    [\<lparr>amount = amt, date = d, category = capitalize (strip cat), tag = strip tg\<rparr>]))))
                limit
           then '' '' @ siren @ '' BUDGET ALERT: Spending in '' @ capitalize (strip cat)
                @ '' exceeds budget of $'' @ fmt_money limit
                @ '' by $'' @ fmt_money (fsub (foldl fadd (Finite 0) (map amount (filter
                 (\<lambda>e. take 7 (date e) = strftime_Ym today \<and> category e = capitalize (strip cat))
                 (expenses (fst w) @
                    [\<lparr>amount = amt, date = d, category = capitalize (strip cat), tag = strip tg\<rparr>]))))
                   limit) @ ''!''
           else [])"
      using add_expense_message [of today amt cat d tg w] by (simp only: Let_def)
    show "(snd (fst (add_expense today amt cat d tg w)) \<noteq> ''Expense added successfully.'') =
      (\<exists>limit. map_of (budgets (fst w)) (capitalize (strip cat)) = Some limit \<and>
         fgt (foldl fadd (Finite 0) (map amount (filter
                 (\<lambda>e. take 7 (date e) = strftime_Ym today \<and> category e = capitalize (strip cat))
                 (expenses (fst w) @
                    [\<lparr>amount = amt, date = d, category = capitalize (strip cat), tag = strip tg\<rparr>]))))
             limit)"
      by (simp add: add_expense_message Let_def split: option.split)
  qed
  have example: "snd (fst (add_expense \<lparr>year = 2025, month = 8, day = dd\<rparr> (Finite 100) ''food''
              ''2025-08-01'' []
              (\<lparr>expenses = [], budgets = [(''Food'', Finite 50)], incomes = ins\<rparr>, f))) =
     ''Expense added successfully. '' @ siren
       @ '' BUDGET ALERT: Spending in Food exceeds budget of $50.00 by $50.00!''"
    by (simp add: add_expense_message capitalize_strip_food strftime_Ym_aug_2025
        fadd_0_100 fsub_100_50 fmt_finite_50 del: fadd.simps)
  from general example show ?thesis by (rule conjI)
qed

subsection \<open>Adding and removing\<close>

text \<open>
  C6. The listing of \<^verbatim>\<open>get_expenses_summary\<close> pairs every expense with its position in the
  store. After \<^verbatim>\<open>add_expense\<close> the new expense is listed with the index that was the length
  of the store before; removing at that index succeeds, gives back the tracker as it was
  before the addition, and with it the same total spend.
\<close>

theorem add_then_remove_restores_total:
  "((i, e) \<in> set (fst (get_expenses_summary (fst (snd (add_expense today amt cat d tg w)))))) =
     (0 \<le> i \<and> i < int (length (expenses (fst (snd (add_expense today amt cat d tg w))))) \<and>
      e = expenses (fst (snd (add_expense today amt cat d tg w))) ! nat i) \<and>
   (int (length (expenses (fst w))),
      \<lparr>amount = amt, date = d, category = capitalize (strip cat), tag = strip tg\<rparr>)
     \<in> set (fst (get_expenses_summary (fst (snd (add_expense today amt cat d tg w))))) \<and>
   fst (fst (remove_expense (int (length (expenses (fst w))))
              (snd (add_expense today amt cat d tg w)))) = True \<and>
   fst (snd (remove_expense (int (length (expenses (fst w))))
              (snd (add_expense today amt cat d tg w)))) = fst w \<and>
   snd (get_expenses_summary (fst (snd (remove_expense (int (length (expenses (fst w))))
              (snd (add_expense today amt cat d tg w)))))) =
     snd (get_expenses_summary (fst w))"
proof -
  let ?ex = "\<lparr>amount = amt, date = d, category = capitalize (strip cat), tag = strip tg\<rparr>"
  let ?w1 = "snd (add_expense today amt cat d tg w)"
  let ?n = "int (length (expenses (fst w)))"
  have t1: "fst ?w1 = (fst w)\<lparr>expenses := expenses (fst w) @ [?ex]\<rparr>"
    by (rule add_expense_tracker)
  have listing: "((i, e) \<in> set (fst (get_expenses_summary (fst ?w1)))) =
     (0 \<le> i \<and> i < int (length (expenses (fst ?w1))) \<and> e = expenses (fst ?w1) ! nat i)"
    by (rule in_expenses_summary)
  have fresh: "(?n, ?ex) \<in> set (fst (get_expenses_summary (fst ?w1)))"
    by (simp add: in_expenses_summary t1)
  have ok: "fst (fst (remove_expense ?n ?w1)) = True"
    by (simp add: remove_expense_def pop_def Let_def t1)
  have restored: "fst (snd (remove_expense ?n ?w1)) = fst w"
    by (simp add: remove_expense_def pop_def save_def Let_def t1)
  have total: "snd (get_expenses_summary (fst (snd (remove_expense ?n ?w1)))) =
     snd (get_expenses_summary (fst w))"
    by (simp only: restored)
  from listing fresh ok restored total show ?thesis by blast
qed

end
